theory Spec2Isabelle
  imports Main
begin

section \<open>Python values\<close>

text \<open>
  The module \<^verbatim>\<open>Logic/Expression.py\<close> builds propositional formulas as object trees.
  An operand of a connective is any Python value: the constructors check nothing. The
  values modelled here are the leaves \<^verbatim>\<open>True\<close>/\<^verbatim>\<open>False\<close>, \<^verbatim>\<open>None\<close>, integers and
  strings, and instances of the five connective classes \<^verbatim>\<open>Not\<close>, \<^verbatim>\<open>Or\<close>, \<^verbatim>\<open>And\<close>,
  \<^verbatim>\<open>Conditional\<close> and \<^verbatim>\<open>BiConditional\<close>. The class \<^verbatim>\<open>Not\<close> is written \<open>NotE\<close>,
  since \<open>Not\<close> is the negation of HOL.

  \<^verbatim>\<open>UnaryExpression.__init__(self, a)\<close> stores \<^verbatim>\<open>scope = (a,)\<close> and \<^verbatim>\<open>self.a = scope[0]\<close>;
  \<^verbatim>\<open>BinaryExpression.__init__(self, a, b)\<close> stores \<^verbatim>\<open>scope = (a, b)\<close>, \<^verbatim>\<open>self.a = scope[0]\<close>
  and \<^verbatim>\<open>self.b = scope[1]\<close>. No method assigns an attribute afterwards, so an instance is
  the value of its class and its operands.
\<close>

datatype pyval =
    PBool bool
  | PNone
  | PInt int
  | PStr string
  | NotE pyval
  | Or pyval pyval
  | And pyval pyval
  | Conditional pyval pyval
  | BiConditional pyval pyval

text \<open>
  The module has no \<^verbatim>\<open>raise\<close> statement. The one exception its operations meet on the
  values above is the \<^verbatim>\<open>AttributeError\<close> of looking up an attribute that the value's
  class does not have.
\<close>

datatype exn = AttributeError

text \<open>
  Python's truth test, as applied by \<^verbatim>\<open>if\<close>, \<^verbatim>\<open>not\<close>, \<^verbatim>\<open>and\<close> and \<^verbatim>\<open>or\<close>: \<^verbatim>\<open>None\<close>, \<^verbatim>\<open>0\<close>
  and the empty string are false; an instance of a class that defines neither
  \<^verbatim>\<open>__bool__\<close> nor \<^verbatim>\<open>__len__\<close> (every Expression) is true.
\<close>

fun truthy :: "pyval \<Rightarrow> bool" where
  "truthy (PBool b) = b"
| "truthy PNone = False"
| "truthy (PInt i) = (i \<noteq> 0)"
| "truthy (PStr s) = (s \<noteq> [])"
| "truthy _ = True"

text \<open>\<^verbatim>\<open>not x\<close> is a bool; \<^verbatim>\<open>x and y\<close> and \<^verbatim>\<open>x or y\<close> return one of their operands.\<close>

definition py_not :: "pyval \<Rightarrow> pyval" where
  "py_not x = PBool (\<not> truthy x)"

definition py_and :: "pyval \<Rightarrow> pyval \<Rightarrow> pyval" where
  "py_and x y = (if truthy x then y else x)"

definition py_or :: "pyval \<Rightarrow> pyval \<Rightarrow> pyval" where
  "py_or x y = (if truthy x then x else y)"

text \<open>Calling a method on the result of a call: an exception of the first call propagates.\<close>

definition chain :: "exn + 'a \<Rightarrow> ('a \<Rightarrow> exn + 'b) \<Rightarrow> exn + 'b" where
  "chain r f = (case r of Inl e \<Rightarrow> Inl e | Inr v \<Rightarrow> f v)"

text \<open>\<^verbatim>\<open>isinstance(x, Not)\<close> and \<^verbatim>\<open>isinstance(x, Expression)\<close>.\<close>

fun isinstance_Not :: "pyval \<Rightarrow> bool" where
  "isinstance_Not (NotE a) = True"
| "isinstance_Not _ = False"

fun isinstance_Expression :: "pyval \<Rightarrow> bool" where
  "isinstance_Expression (PBool b) = False"
| "isinstance_Expression PNone = False"
| "isinstance_Expression (PInt i) = False"
| "isinstance_Expression (PStr s) = False"
| "isinstance_Expression _ = True"

text \<open>The attribute \<^verbatim>\<open>a\<close>, set by the constructors of the unary and binary classes.\<close>

fun attr_a :: "pyval \<Rightarrow> exn + pyval" where
  "attr_a (NotE a) = Inr a"
| "attr_a (Or a b) = Inr a"
| "attr_a (And a b) = Inr a"
| "attr_a (Conditional a b) = Inr a"
| "attr_a (BiConditional a b) = Inr a"
| "attr_a _ = Inl AttributeError"

section \<open>Evaluation: \<^verbatim>\<open>truth_value\<close> and \<^verbatim>\<open>_is_true\<close>\<close>

text \<open>
  \<^verbatim>\<open>truth_value\<close> is a property of each connective class; on a value of another class the
  lookup \<^verbatim>\<open>exp.truth_value\<close> raises \<^verbatim>\<open>AttributeError\<close>, which \<^verbatim>\<open>Expression._is_true\<close>
  catches:
  \<^verbatim>\<open>
    try:
        return exp.truth_value
    except AttributeError:
        return exp
  \<close>
  Each connective tests a Python condition and returns the literal \<^verbatim>\<open>True\<close> or
  \<^verbatim>\<open>False\<close>; \<^verbatim>\<open>Not\<close> returns \<^verbatim>\<open>not self._is_true(self.a)\<close>.
\<close>

function (sequential) truth_value :: "pyval \<Rightarrow> exn + pyval"
  and is_true :: "pyval \<Rightarrow> pyval"
where
  "truth_value (NotE a) = Inr (py_not (is_true a))"
| "truth_value (Or a b) =
     (if truthy (py_and (py_not (is_true a)) (py_not (is_true b)))
      then Inr (PBool False) else Inr (PBool True))"
| "truth_value (And a b) =
     (if truthy (py_and (is_true a) (is_true b))
      then Inr (PBool True) else Inr (PBool False))"
| "truth_value (Conditional a b) =
     (if truthy (py_or (py_not (is_true a)) (is_true b))
      then Inr (PBool True) else Inr (PBool False))"
| "truth_value (BiConditional a b) =
     (if truthy (py_or (py_and (is_true a) (is_true b))
                       (py_not (py_or (is_true a) (is_true b))))
      then Inr (PBool True) else Inr (PBool False))"
| "truth_value _ = Inl AttributeError"
| "is_true exp =
     (case truth_value exp of Inr v \<Rightarrow> v | Inl AttributeError \<Rightarrow> exp)"
  by pat_completeness auto
termination
  by (relation "measure (\<lambda>x. case x of Inl v \<Rightarrow> 2 * size v | Inr v \<Rightarrow> 2 * size v + 1)")
     auto

section \<open>The class \<^verbatim>\<open>Not\<close>: double negation\<close>

text \<open>
  \<^verbatim>\<open>can_be_double_negated\<close> is a property and \<^verbatim>\<open>double_negation\<close> a method of \<^verbatim>\<open>Not\<close>
  only. \<^verbatim>\<open>double_negation\<close> has no \<^verbatim>\<open>else\<close> branch: when \<^verbatim>\<open>self.a\<close> is not a \<^verbatim>\<open>Not\<close>
  the body ends without \<^verbatim>\<open>return\<close>, and the call returns \<^verbatim>\<open>None\<close>.
\<close>

fun can_be_double_negated :: "pyval \<Rightarrow> exn + pyval" where
  "can_be_double_negated (NotE a) =
     (if isinstance_Not a then Inr (PBool True) else Inr (PBool False))"
| "can_be_double_negated _ = Inl AttributeError"

fun double_negation :: "pyval \<Rightarrow> exn + pyval" where
  "double_negation (NotE a) = (if isinstance_Not a then attr_a a else Inr PNone)"
| "double_negation _ = Inl AttributeError"

section \<open>The rewrite methods\<close>

fun demorgans_law_or :: "pyval \<Rightarrow> exn + pyval" where
  "demorgans_law_or (Or a b) = Inr (NotE (And (NotE a) (NotE b)))"
| "demorgans_law_or _ = Inl AttributeError"

fun demorgan_law_and :: "pyval \<Rightarrow> exn + pyval" where
  "demorgan_law_and (And a b) = Inr (NotE (Or (NotE a) (NotE b)))"
| "demorgan_law_and _ = Inl AttributeError"

fun disjunction_convert :: "pyval \<Rightarrow> exn + pyval" where
  "disjunction_convert (Conditional a b) = Inr (Or (NotE a) b)"
| "disjunction_convert _ = Inl AttributeError"

fun conditional_convert :: "pyval \<Rightarrow> exn + pyval" where
  "conditional_convert (BiConditional a b) = Inr (And (Conditional a b) (Conditional b a))"
| "conditional_convert _ = Inl AttributeError"

section \<open>Trees over boolean leaves\<close>

text \<open>A value all of whose leaves are booleans: a boolean, or a connective over such values.\<close>

fun bool_leaves :: "pyval \<Rightarrow> bool" where
  "bool_leaves (PBool b) = True"
| "bool_leaves PNone = False"
| "bool_leaves (PInt i) = False"
| "bool_leaves (PStr s) = False"
| "bool_leaves (NotE a) = bool_leaves a"
| "bool_leaves (Or a b) = (bool_leaves a \<and> bool_leaves b)"
| "bool_leaves (And a b) = (bool_leaves a \<and> bool_leaves b)"
| "bool_leaves (Conditional a b) = (bool_leaves a \<and> bool_leaves b)"
| "bool_leaves (BiConditional a b) = (bool_leaves a \<and> bool_leaves b)"

section \<open>Textual rendering: \<^verbatim>\<open>__str__\<close>\<close>

text \<open>
  \<^verbatim>\<open>str\<close> of a leaf is Python's own: \<^verbatim>\<open>True\<close>, \<^verbatim>\<open>False\<close>, \<^verbatim>\<open>None\<close>, the decimal digits of an
  integer, and a string as it is.
\<close>

fun digit_chars :: "nat \<Rightarrow> string" where
  "digit_chars n =
     (if n < 10 then [char_of (48 + n)]
      else digit_chars (n div 10) @ [char_of (48 + n mod 10)])"

declare digit_chars.simps [simp del]

definition str_int :: "int \<Rightarrow> string" where
  "str_int i = (if i < 0 then CHR ''-'' # digit_chars (nat (- i)) else digit_chars (nat i))"

text \<open>
  \<^verbatim>\<open>Expression.__str__\<close> reads the class name and the scope of the instance, which the
  constructor of a unary class set to \<^verbatim>\<open>(a,)\<close> and that of a binary class to \<^verbatim>\<open>(a, b)\<close>:
  \<^verbatim>\<open>
    string = self.__class__.__name__ + "("
    l = len(self.scope) - 1
    for i, s in enumerate(self.scope):
        if i < l:
            string += str(s) + ", "
        else:
            string += str(s)
    string += ")"
    return string
  \<close>
  \<open>str_loop l i rest string\<close> is the loop at index \<open>i\<close> with \<open>rest\<close> still to visit.
\<close>

function py_str :: "pyval \<Rightarrow> string"
  and Expression_str :: "string \<Rightarrow> pyval list \<Rightarrow> string"
  and str_loop :: "int \<Rightarrow> int \<Rightarrow> pyval list \<Rightarrow> string \<Rightarrow> string"
where
  "py_str (PBool b) = (if b then ''True'' else ''False'')"
| "py_str PNone = ''None''"
| "py_str (PInt i) = str_int i"
| "py_str (PStr s) = s"
| "py_str (NotE a) = Expression_str ''Not'' [a]"
| "py_str (Or a b) = Expression_str ''Or'' [a, b]"
| "py_str (And a b) = Expression_str ''And'' [a, b]"
| "py_str (Conditional a b) = Expression_str ''Conditional'' [a, b]"
| "py_str (BiConditional a b) = Expression_str ''BiConditional'' [a, b]"
| "Expression_str name scope =
     (let string = name @ ''('';
          l = int (length scope) - 1;
          string = str_loop l 0 scope string
      in string @ '')'')"
| "str_loop l i [] string = string"
| "str_loop l i (s # rest) string =
     str_loop l (i + 1) rest
       (if i < l then string @ (py_str s @ '', '') else string @ py_str s)"
  by pat_completeness auto
termination
  by (relation "measure (\<lambda>x. case x of
         Inl v \<Rightarrow> 4 * size v
       | Inr (Inl (name, scope)) \<Rightarrow> sum_list (map (\<lambda>v. 4 * size v + 1) scope) + 1
       | Inr (Inr (l, i, scope, string)) \<Rightarrow> sum_list (map (\<lambda>v. 4 * size v + 1) scope))")
     auto

text \<open>
  The format in the words of the specification: the renderings of the operands,
  separated by a comma and a space.
\<close>

fun comma_space_separated :: "string list \<Rightarrow> string" where
  "comma_space_separated [] = []"
| "comma_space_separated [x] = x"
| "comma_space_separated (x # y # ys) = x @ '', '' @ comma_space_separated (y # ys)"

section \<open>Evaluation order\<close>

text \<open>
  Python's \<^verbatim>\<open>and\<close> and \<^verbatim>\<open>or\<close> evaluate their right operand only when the left one does
  not decide the result, and every occurrence of \<^verbatim>\<open>self._is_true(...)\<close> in a condition
  is a call of its own. The traced evaluator returns, beside the value, the operands
  handed to \<^verbatim>\<open>_is_true\<close>, in the order of the calls.
\<close>

function (sequential) truth_value_traced :: "pyval \<Rightarrow> (exn + pyval) \<times> pyval list"
  and is_true_traced :: "pyval \<Rightarrow> pyval \<times> pyval list"
where
  "truth_value_traced (NotE a) =
     (let (x, t1) = is_true_traced a in (Inr (py_not x), t1))"
| "truth_value_traced (Or a b) =
     (let (x, t1) = is_true_traced a in
      if truthy (py_not x) then
        (let (y, t2) = is_true_traced b in
         if truthy (py_not y) then (Inr (PBool False), t1 @ t2)
         else (Inr (PBool True), t1 @ t2))
      else (Inr (PBool True), t1))"
| "truth_value_traced (And a b) =
     (let (x, t1) = is_true_traced a in
      if truthy x then
        (let (y, t2) = is_true_traced b in
         if truthy y then (Inr (PBool True), t1 @ t2)
         else (Inr (PBool False), t1 @ t2))
      else (Inr (PBool False), t1))"
| "truth_value_traced (Conditional a b) =
     (let (x, t1) = is_true_traced a in
      if truthy (py_not x) then (Inr (PBool True), t1)
      else
        (let (y, t2) = is_true_traced b in
         if truthy y then (Inr (PBool True), t1 @ t2)
         else (Inr (PBool False), t1 @ t2)))"
| "truth_value_traced (BiConditional a b) =
     (let (x, t1) = is_true_traced a;
          (conj, t2) = (if truthy x then is_true_traced b else (x, []))
      in
      if truthy conj then (Inr (PBool True), t1 @ t2)
      else
        (let (x', t3) = is_true_traced a;
             (disj, t4) = (if truthy x' then (x', []) else is_true_traced b)
         in
         if truthy (py_not disj) then (Inr (PBool True), t1 @ t2 @ t3 @ t4)
         else (Inr (PBool False), t1 @ t2 @ t3 @ t4)))"
| "truth_value_traced _ = (Inl AttributeError, [])"
| "is_true_traced exp =
     (case truth_value_traced exp of
        (Inr v, t) \<Rightarrow> (v, exp # t)
      | (Inl AttributeError, t) \<Rightarrow> (exp, exp # t))"
  by pat_completeness auto
termination
  by (relation "measure (\<lambda>x. case x of Inl v \<Rightarrow> 2 * size v | Inr v \<Rightarrow> 2 * size v + 1)")
     auto

section \<open>Objects in a store\<close>

text \<open>
  Whether a method changes its receiver is not visible on values. Here an instance is an
  object in a store, addressed by a reference; an attribute that has not been assigned is
  \<open>None\<close>; an operation that raises returns \<open>None\<close>. An operand is a leaf or a
  reference.
\<close>

type_synonym ref = nat

datatype cls = Not_cls | Or_cls | And_cls | Conditional_cls | BiConditional_cls

datatype hval = HBool bool | HNone | HInt int | HStr string | HRef ref

record object =
  obj_class :: cls
  obj_scope :: "hval list option"
  obj_a :: "hval option"
  obj_b :: "hval option"

type_synonym heap = "object list"

type_synonym 'a prog = "heap \<Rightarrow> ('a \<times> heap) option"

text \<open>Returning a value, and running one step after another: a raise ends the run.\<close>

definition ret :: "'a \<Rightarrow> 'a prog" where
  "ret x h = Some (x, h)"

definition seq :: "'a prog \<Rightarrow> ('a \<Rightarrow> 'b prog) \<Rightarrow> 'b prog" where
  "seq m f h = (case m h of None \<Rightarrow> None | Some (x, h') \<Rightarrow> f x h')"

text \<open>
  A new instance gets the next free reference and no attribute yet. Reading an attribute
  of a value that is not an instance, or one not yet assigned, raises; so does an index
  beyond the end of a tuple.
\<close>

definition alloc :: "cls \<Rightarrow> hval prog" where
  "alloc c h =
     Some (HRef (length h),
           h @ [\<lparr>obj_class = c, obj_scope = None, obj_a = None, obj_b = None\<rparr>])"

fun get_object :: "hval \<Rightarrow> object prog" where
  "get_object (HRef r) h = (if r < length h then Some (h ! r, h) else None)"
| "get_object _ h = None"

fun put_object :: "hval \<Rightarrow> object \<Rightarrow> unit prog" where
  "put_object (HRef r) ob h = (if r < length h then Some ((), h[r := ob]) else None)"
| "put_object _ ob h = None"

definition raise_if_unset :: "'a option \<Rightarrow> 'a prog" where
  "raise_if_unset v h = (case v of None \<Rightarrow> None | Some x \<Rightarrow> Some (x, h))"

definition getattr_scope :: "hval \<Rightarrow> (hval list) prog" where
  "getattr_scope self = seq (get_object self) (\<lambda>ob. raise_if_unset (obj_scope ob))"

definition getattr_a :: "hval \<Rightarrow> hval prog" where
  "getattr_a self = seq (get_object self) (\<lambda>ob. raise_if_unset (obj_a ob))"

definition getattr_b :: "hval \<Rightarrow> hval prog" where
  "getattr_b self = seq (get_object self) (\<lambda>ob. raise_if_unset (obj_b ob))"

definition setattr_scope :: "hval \<Rightarrow> hval list \<Rightarrow> unit prog" where
  "setattr_scope self v =
     seq (get_object self) (\<lambda>ob. put_object self (ob\<lparr>obj_scope := Some v\<rparr>))"

definition setattr_a :: "hval \<Rightarrow> hval \<Rightarrow> unit prog" where
  "setattr_a self v =
     seq (get_object self) (\<lambda>ob. put_object self (ob\<lparr>obj_a := Some v\<rparr>))"

definition setattr_b :: "hval \<Rightarrow> hval \<Rightarrow> unit prog" where
  "setattr_b self v =
     seq (get_object self) (\<lambda>ob. put_object self (ob\<lparr>obj_b := Some v\<rparr>))"

definition getitem :: "hval list \<Rightarrow> nat \<Rightarrow> hval prog" where
  "getitem xs i h = (if i < length xs then Some (xs ! i, h) else None)"

text \<open>
  The constructors. \<^verbatim>\<open>Expression.__init__(self, *scope)\<close> assigns \<^verbatim>\<open>self.scope\<close>;
  \<^verbatim>\<open>UnaryExpression.__init__\<close> and \<^verbatim>\<open>BinaryExpression.__init__\<close> call it and assign
  \<^verbatim>\<open>self.a = self.scope[0]\<close> (and \<^verbatim>\<open>self.b = self.scope[1]\<close>); the \<^verbatim>\<open>__init__\<close> of each
  connective only calls that of its base class. A call with the wrong number of
  arguments raises.
\<close>

definition Expression_init :: "hval \<Rightarrow> hval list \<Rightarrow> unit prog" where
  "Expression_init self scope = setattr_scope self scope"

definition UnaryExpression_init :: "hval \<Rightarrow> hval \<Rightarrow> unit prog" where
  "UnaryExpression_init self a =
     seq (Expression_init self [a]) (\<lambda>_.
     seq (getattr_scope self) (\<lambda>scope.
     seq (getitem scope 0) (\<lambda>s0.
     setattr_a self s0)))"

definition BinaryExpression_init :: "hval \<Rightarrow> hval \<Rightarrow> hval \<Rightarrow> unit prog" where
  "BinaryExpression_init self a b =
     seq (Expression_init self [a, b]) (\<lambda>_.
     seq (getattr_scope self) (\<lambda>scope.
     seq (getitem scope 0) (\<lambda>s0.
     seq (setattr_a self s0) (\<lambda>_.
     seq (getattr_scope self) (\<lambda>scope.
     seq (getitem scope 1) (\<lambda>s1.
     setattr_b self s1))))))"

fun class_init :: "cls \<Rightarrow> hval \<Rightarrow> hval list \<Rightarrow> unit prog" where
  "class_init Not_cls self [a] = UnaryExpression_init self a"
| "class_init Or_cls self [a, b] = BinaryExpression_init self a b"
| "class_init And_cls self [a, b] = BinaryExpression_init self a b"
| "class_init Conditional_cls self [a, b] = BinaryExpression_init self a b"
| "class_init BiConditional_cls self [a, b] = BinaryExpression_init self a b"
| "class_init _ self _ = (\<lambda>h. None)"

definition new :: "cls \<Rightarrow> hval list \<Rightarrow> hval prog" where
  "new c args = seq (alloc c) (\<lambda>self. seq (class_init c self args) (\<lambda>_. ret self))"

text \<open>
  The rewrite methods on the store. A method is found only on an instance of its class.
  The arguments of a call are evaluated from left to right, the inner calls first.
\<close>

definition method_of :: "cls \<Rightarrow> hval \<Rightarrow> unit prog" where
  "method_of c self =
     seq (get_object self) (\<lambda>ob. if obj_class ob = c then ret () else (\<lambda>h. None))"

definition demorgans_law_or_h :: "hval \<Rightarrow> hval prog" where
  "demorgans_law_or_h self =
     seq (method_of Or_cls self) (\<lambda>_.
     seq (getattr_a self) (\<lambda>a.
     seq (new Not_cls [a]) (\<lambda>na.
     seq (getattr_b self) (\<lambda>b.
     seq (new Not_cls [b]) (\<lambda>nb.
     seq (new And_cls [na, nb]) (\<lambda>c.
     new Not_cls [c]))))))"

definition demorgan_law_and_h :: "hval \<Rightarrow> hval prog" where
  "demorgan_law_and_h self =
     seq (method_of And_cls self) (\<lambda>_.
     seq (getattr_a self) (\<lambda>a.
     seq (new Not_cls [a]) (\<lambda>na.
     seq (getattr_b self) (\<lambda>b.
     seq (new Not_cls [b]) (\<lambda>nb.
     seq (new Or_cls [na, nb]) (\<lambda>c.
     new Not_cls [c]))))))"

definition disjunction_convert_h :: "hval \<Rightarrow> hval prog" where
  "disjunction_convert_h self =
     seq (method_of Conditional_cls self) (\<lambda>_.
     seq (getattr_a self) (\<lambda>a.
     seq (new Not_cls [a]) (\<lambda>na.
     seq (getattr_b self) (\<lambda>b.
     new Or_cls [na, b]))))"

definition conditional_convert_h :: "hval \<Rightarrow> hval prog" where
  "conditional_convert_h self =
     seq (method_of BiConditional_cls self) (\<lambda>_.
     seq (getattr_a self) (\<lambda>a.
     seq (getattr_b self) (\<lambda>b.
     seq (new Conditional_cls [a, b]) (\<lambda>c1.
     seq (getattr_b self) (\<lambda>b'.
     seq (getattr_a self) (\<lambda>a'.
     seq (new Conditional_cls [b', a']) (\<lambda>c2.
     new And_cls [c1, c2])))))))"

text \<open>
  Reading an operand back as a value: \<open>tree_of n h v\<close> follows references to depth \<open>n\<close>
  and succeeds on objects as the constructors leave them (\<open>constructed\<close>).
\<close>

fun build :: "cls \<Rightarrow> pyval list \<Rightarrow> pyval option" where
  "build Not_cls [x] = Some (NotE x)"
| "build Or_cls [x, y] = Some (Or x y)"
| "build And_cls [x, y] = Some (And x y)"
| "build Conditional_cls [x, y] = Some (Conditional x y)"
| "build BiConditional_cls [x, y] = Some (BiConditional x y)"
| "build _ _ = None"

definition constructed :: "object \<Rightarrow> hval list \<Rightarrow> bool" where
  "constructed ob scope =
     (obj_scope ob = Some scope
      \<and> (case scope of
           [a] \<Rightarrow> obj_a ob = Some a \<and> obj_b ob = None
         | [a, b] \<Rightarrow> obj_a ob = Some a \<and> obj_b ob = Some b
         | _ \<Rightarrow> False))"

fun tree_of :: "nat \<Rightarrow> heap \<Rightarrow> hval \<Rightarrow> pyval option" where
  "tree_of n h (HBool b) = Some (PBool b)"
| "tree_of n h HNone = Some PNone"
| "tree_of n h (HInt i) = Some (PInt i)"
| "tree_of n h (HStr s) = Some (PStr s)"
| "tree_of 0 h (HRef r) = None"
| "tree_of (Suc n) h (HRef r) =
     (if r < length h then
        (case obj_scope (h ! r) of
           None \<Rightarrow> None
         | Some scope \<Rightarrow>
             if constructed (h ! r) scope then
               (case those (map (tree_of n h) scope) of
                  None \<Rightarrow> None
                | Some ts \<Rightarrow> build (obj_class (h ! r)) ts)
             else None)
      else None)"

text \<open>The objects that the constructors of the unary and the binary classes leave.\<close>

definition unary_object :: "cls \<Rightarrow> hval \<Rightarrow> object" where
  "unary_object c a = \<lparr>obj_class = c, obj_scope = Some [a], obj_a = Some a, obj_b = None\<rparr>"

definition binary_object :: "cls \<Rightarrow> hval \<Rightarrow> hval \<Rightarrow> object" where
  "binary_object c a b =
     \<lparr>obj_class = c, obj_scope = Some [a, b], obj_a = Some a, obj_b = Some b\<rparr>"

section \<open>Properties of evaluation\<close>

lemma is_true_leaf:
  "is_true (PBool b) = PBool b"
  "is_true PNone = PNone"
  "is_true (PInt i) = PInt i"
  "is_true (PStr s) = PStr s"
  by simp_all

lemma truth_value_bool:
  "isinstance_Expression e \<Longrightarrow> \<exists>v. truth_value e = Inr (PBool v)"
  by (cases e) (auto simp: py_not_def)

lemma is_true_bool_leaves:
  "bool_leaves x \<Longrightarrow> \<exists>v. is_true x = PBool v"
  by (cases x) (auto simp: py_not_def)

text \<open>
  Claim C1. Over boolean operands each connective computes its standard truth table:
  \<^verbatim>\<open>And(a,b).truth_value == (a and b)\<close>, \<^verbatim>\<open>Or(a,b).truth_value == (a or b)\<close>,
  \<^verbatim>\<open>Conditional(a,b).truth_value == (not a or b)\<close>,
  \<^verbatim>\<open>BiConditional(a,b).truth_value == (a == b)\<close> and \<^verbatim>\<open>Not(a).truth_value == (not a)\<close>.
\<close>

theorem truth_tables:
  "truth_value (And (PBool a) (PBool b)) = Inr (PBool (a \<and> b))
   \<and> truth_value (Or (PBool a) (PBool b)) = Inr (PBool (a \<or> b))
   \<and> truth_value (Conditional (PBool a) (PBool b)) = Inr (PBool (\<not> a \<or> b))
   \<and> truth_value (BiConditional (PBool a) (PBool b)) = Inr (PBool (a = b))
   \<and> truth_value (NotE (PBool a)) = Inr (PBool (\<not> a))"
  by (cases a; cases b) (simp_all add: py_not_def py_and_def py_or_def)

theorem truth_tables_witness:
  "truth_value (And (PBool True) (PBool False)) = Inr (PBool False)
   \<and> truth_value (Or (PBool True) (PBool False)) = Inr (PBool True)
   \<and> truth_value (Conditional (PBool True) (PBool False)) = Inr (PBool False)
   \<and> truth_value (BiConditional (PBool True) (PBool False)) = Inr (PBool False)
   \<and> truth_value (NotE (PBool True)) = Inr (PBool False)"
  using truth_tables [of True False] by (simp add: py_not_def py_and_def py_or_def)

text \<open>
  Claim C2. The De Morgan rewrites preserve the truth value over boolean operands:
  \<^verbatim>\<open>Or(a,b).truth_value == Or(a,b).demorgans_law_or().truth_value\<close> and
  \<^verbatim>\<open>And(a,b).truth_value == And(a,b).demorgan_law_and().truth_value\<close>; neither side
  raises.
\<close>

theorem demorgan_truth_preserving:
  "chain (demorgans_law_or (Or (PBool a) (PBool b))) truth_value
     = truth_value (Or (PBool a) (PBool b))
   \<and> chain (demorgan_law_and (And (PBool a) (PBool b))) truth_value
     = truth_value (And (PBool a) (PBool b))
   \<and> (\<exists>v. truth_value (Or (PBool a) (PBool b)) = Inr (PBool v))
   \<and> (\<exists>v. truth_value (And (PBool a) (PBool b)) = Inr (PBool v))"
  by (cases a; cases b) (auto simp: chain_def py_not_def py_and_def py_or_def)

theorem demorgan_truth_preserving_witness:
  "chain (demorgans_law_or (Or (PBool False) (PBool True))) truth_value = Inr (PBool True)
   \<and> chain (demorgan_law_and (And (PBool False) (PBool True))) truth_value
     = Inr (PBool False)"
  using demorgan_truth_preserving [of False True]
  by (simp add: py_not_def py_and_def py_or_def)

text \<open>
  Claim C3. The conversions preserve the truth value over boolean operands:
  \<^verbatim>\<open>Conditional(a,b).truth_value == Conditional(a,b).disjunction_convert().truth_value\<close>
  and
  \<^verbatim>\<open>BiConditional(a,b).truth_value == BiConditional(a,b).conditional_convert().truth_value\<close>;
  neither side raises.
\<close>

theorem conversion_truth_preserving:
  "chain (disjunction_convert (Conditional (PBool a) (PBool b))) truth_value
     = truth_value (Conditional (PBool a) (PBool b))
   \<and> chain (conditional_convert (BiConditional (PBool a) (PBool b))) truth_value
     = truth_value (BiConditional (PBool a) (PBool b))
   \<and> (\<exists>v. truth_value (Conditional (PBool a) (PBool b)) = Inr (PBool v))
   \<and> (\<exists>v. truth_value (BiConditional (PBool a) (PBool b)) = Inr (PBool v))"
  by (cases a; cases b) (auto simp: chain_def py_not_def py_and_def py_or_def)

theorem conversion_truth_preserving_witness:
  "chain (disjunction_convert (Conditional (PBool True) (PBool False))) truth_value
     = Inr (PBool False)
   \<and> chain (conditional_convert (BiConditional (PBool True) (PBool False))) truth_value
     = Inr (PBool False)"
  using conversion_truth_preserving [of True False]
  by (simp add: py_not_def py_and_def py_or_def)

text \<open>
  Claim C4. For every \<^verbatim>\<open>Not\<close> expression \<open>n = Not(x)\<close>: \<^verbatim>\<open>n.can_be_double_negated\<close> is
  \<^verbatim>\<open>True\<close> iff \<open>x\<close> is itself a \<^verbatim>\<open>Not\<close>; then \<^verbatim>\<open>n.double_negation()\<close> returns the operand
  of the inner \<^verbatim>\<open>Not\<close>, so that \<^verbatim>\<open>Not(Not(True)).double_negation() == True\<close>; otherwise
  \<^verbatim>\<open>n.double_negation()\<close> raises nothing and returns \<^verbatim>\<open>None\<close>, as
  \<^verbatim>\<open>Not(True).double_negation()\<close> does.
\<close>

theorem double_negation_spec:
  "can_be_double_negated (NotE x) = Inr (PBool (\<exists>y. x = NotE y))
   \<and> double_negation (NotE (NotE y)) = Inr y
   \<and> double_negation (NotE (NotE (PBool True))) = Inr (PBool True)
   \<and> ((\<forall>y. x \<noteq> NotE y) \<longrightarrow> double_negation (NotE x) = Inr PNone)
   \<and> can_be_double_negated (NotE (PBool True)) = Inr (PBool False)
   \<and> double_negation (NotE (PBool True)) = Inr PNone"
  by (cases x) simp_all

theorem double_negation_spec_witness:
  "can_be_double_negated (NotE (PInt 7)) = Inr (PBool False)
   \<and> double_negation (NotE (NotE (PStr ''p''))) = Inr (PStr ''p'')
   \<and> (\<forall>y. PInt 7 \<noteq> NotE y)
   \<and> double_negation (NotE (PInt 7)) = Inr PNone"
  using double_negation_spec [of "PInt 7" "PStr ''p''"] by simp

text \<open>
  Claim C9. For every expression built from the five connectives whose leaves are
  booleans, \<^verbatim>\<open>truth_value\<close> raises nothing and returns exactly \<^verbatim>\<open>True\<close> or \<^verbatim>\<open>False\<close>.
\<close>

theorem truth_value_strict_bool:
  assumes "isinstance_Expression e" and "bool_leaves e"
  shows "truth_value e = Inr (PBool True) \<or> truth_value e = Inr (PBool False)"
proof -
  from assms(1) obtain v where "truth_value e = Inr (PBool v)"
    using truth_value_bool by blast
  then show ?thesis by (cases v) simp_all
qed

theorem truth_value_strict_bool_witness:
  "isinstance_Expression (And (Or (PBool True) (PBool False)) (NotE (PBool False)))
   \<and> bool_leaves (And (Or (PBool True) (PBool False)) (NotE (PBool False)))
   \<and> truth_value (And (Or (PBool True) (PBool False)) (NotE (PBool False)))
       = Inr (PBool True)"
  using truth_value_strict_bool
    [of "And (Or (PBool True) (PBool False)) (NotE (PBool False))"]
  by (simp add: py_not_def py_and_def py_or_def)

text \<open>
  Claim C10. For every operand \<open>x\<close> that is a boolean or an expression over boolean
  leaves, \<^verbatim>\<open>Not(Not(x)).double_negation()\<close> returns \<open>x\<close> itself, and the truth value that
  \<open>x\<close> resolves to equals \<^verbatim>\<open>Not(Not(x)).truth_value\<close>.
\<close>

theorem double_negation_truth_preserving:
  assumes "bool_leaves x"
  shows "double_negation (NotE (NotE x)) = Inr x
         \<and> truth_value (NotE (NotE x)) = Inr (is_true x)"
proof -
  from assms obtain v where "is_true x = PBool v"
    using is_true_bool_leaves by blast
  then have "truth_value (NotE (NotE x)) = Inr (is_true x)"
    by (simp add: py_not_def)
  then show ?thesis by simp
qed

theorem double_negation_truth_preserving_witness:
  "bool_leaves (Or (PBool False) (PBool True))
   \<and> double_negation (NotE (NotE (Or (PBool False) (PBool True))))
       = Inr (Or (PBool False) (PBool True))
   \<and> truth_value (NotE (NotE (Or (PBool False) (PBool True)))) = Inr (PBool True)
   \<and> is_true (Or (PBool False) (PBool True)) = PBool True"
  using double_negation_truth_preserving [of "Or (PBool False) (PBool True)"]
  by (simp add: py_not_def py_and_def py_or_def)

lemma truth_value_connectives:
  "truth_value (NotE a) = Inr (PBool (\<not> truthy (is_true a)))"
  "truth_value (Or a b) = Inr (PBool (truthy (is_true a) \<or> truthy (is_true b)))"
  "truth_value (And a b) = Inr (PBool (truthy (is_true a) \<and> truthy (is_true b)))"
  "truth_value (Conditional a b)
     = Inr (PBool (\<not> truthy (is_true a) \<or> truthy (is_true b)))"
  "truth_value (BiConditional a b)
     = Inr (PBool (truthy (is_true a) = truthy (is_true b)))"
  by (auto simp: py_not_def py_and_def py_or_def simp del: is_true.simps)

text \<open>
  Claim C5 says that resolving an operand that is neither a boolean nor an Expression
  fails with a type error and never returns the operand unchanged. The code does
  otherwise: \<^verbatim>\<open>_is_true(5)\<close> returns \<^verbatim>\<open>5\<close>, and \<^verbatim>\<open>Not(5).truth_value\<close> is \<^verbatim>\<open>False\<close>.
\<close>

theorem is_true_type_error_counterexample:
  "is_true (PInt 5) = PInt 5 \<and> truth_value (NotE (PInt 5)) = Inr (PBool False)"
  by (simp add: py_not_def)

text \<open>
  Claim C5, amended. When an operand \<open>x\<close> that is neither a boolean nor an Expression is
  resolved, the lookup of \<^verbatim>\<open>truth_value\<close> raises \<^verbatim>\<open>AttributeError\<close>, \<^verbatim>\<open>_is_true\<close> catches
  it and returns the operand unchanged, and the connective applies Python's truth test
  to it, whichever of the five connectives it is and in whichever position \<open>x\<close> stands:
  for \<^verbatim>\<open>None\<close>, an integer or a string no error reaches the caller, and the result is the
  connective's truth table over the truth test of \<open>x\<close> and the resolved truth of the other
  operand \<open>y\<close>.
\<close>

theorem is_true_returns_operand:
  assumes "\<not> isinstance_Expression x" and "\<forall>b. x \<noteq> PBool b"
  shows "truth_value x = Inl AttributeError \<and> is_true x = x
         \<and> truth_value (NotE x) = Inr (PBool (\<not> truthy x))
         \<and> truth_value (And x y) = Inr (PBool (truthy x \<and> truthy (is_true y)))
         \<and> truth_value (And y x) = Inr (PBool (truthy (is_true y) \<and> truthy x))
         \<and> truth_value (Or x y) = Inr (PBool (truthy x \<or> truthy (is_true y)))
         \<and> truth_value (Or y x) = Inr (PBool (truthy (is_true y) \<or> truthy x))
         \<and> truth_value (Conditional x y) = Inr (PBool (\<not> truthy x \<or> truthy (is_true y)))
         \<and> truth_value (Conditional y x) = Inr (PBool (\<not> truthy (is_true y) \<or> truthy x))
         \<and> truth_value (BiConditional x y) = Inr (PBool (truthy x = truthy (is_true y)))
         \<and> truth_value (BiConditional y x) = Inr (PBool (truthy (is_true y) = truthy x))"
proof -
  from assms have leaf: "truth_value x = Inl AttributeError" and same: "is_true x = x"
    by (cases x; simp)+
  show ?thesis
    unfolding truth_value_connectives same using leaf by simp
qed

theorem is_true_returns_operand_witness:
  "\<not> isinstance_Expression (PInt 5) \<and> (\<forall>b. PInt 5 \<noteq> PBool b)
   \<and> truth_value (PInt 5) = Inl AttributeError \<and> is_true (PInt 5) = PInt 5
   \<and> truth_value (NotE (PInt 5)) = Inr (PBool False)
   \<and> truth_value (And (PInt 5) (PStr ''a'')) = Inr (PBool True)
   \<and> truth_value (And (PStr []) (PInt 5)) = Inr (PBool False)
   \<and> truth_value (Or (PInt 5) PNone) = Inr (PBool True)
   \<and> truth_value (Conditional (PInt 5) PNone) = Inr (PBool False)
   \<and> truth_value (BiConditional PNone (PInt 5)) = Inr (PBool False)"
  using is_true_returns_operand [of "PInt 5" "PStr ''a''"]
    is_true_returns_operand [of "PInt 5" "PStr []"]
    is_true_returns_operand [of "PInt 5" PNone]
  by (simp add: py_not_def py_and_def py_or_def)

section \<open>Properties of the evaluation order\<close>

lemma traced_value:
  "fst (truth_value_traced e) = truth_value e"
  "fst (is_true_traced e) = is_true e"
  by (induction e and e rule: truth_value_traced_is_true_traced.induct)
     (auto simp: py_not_def py_and_def py_or_def Let_def
           split: prod.splits sum.splits exn.splits)

lemma is_true_traced_head: "\<exists>t. snd (is_true_traced x) = x # t"
  by (cases "truth_value_traced x")
     (auto split: sum.splits exn.splits)

text \<open>
  Claim C6 says that \<^verbatim>\<open>Or(a,b).truth_value\<close> always resolves both operands. The code
  does not: evaluating \<^verbatim>\<open>Or(True, False).truth_value\<close> calls \<^verbatim>\<open>_is_true\<close> once, on \<^verbatim>\<open>a\<close>;
  the operand \<^verbatim>\<open>b\<close> is never resolved.
\<close>

theorem or_resolves_both_counterexample:
  "truth_value_traced (Or (PBool True) (PBool False)) = (Inr (PBool True), [PBool True])
   \<and> PBool False \<notin> set (snd (truth_value_traced (Or (PBool True) (PBool False))))"
  by (simp add: py_not_def)

text \<open>
  Claim C6, amended. \<^verbatim>\<open>Or(a,b).truth_value\<close> is \<^verbatim>\<open>False\<close> only when both \<open>a\<close> and \<open>b\<close>
  resolve to false values and \<^verbatim>\<open>True\<close> otherwise, and it does short-circuit on the
  object graph: the calls of \<^verbatim>\<open>_is_true\<close> that one evaluation makes are those that resolve
  \<open>a\<close>, starting with the call on \<open>a\<close> itself, followed by those that resolve \<open>b\<close>,
  starting with the call on \<open>b\<close>, exactly when \<open>a\<close> resolves to a false value; when \<open>a\<close>
  resolves to a true value \<open>b\<close> is not resolved. The traced evaluation returns the value
  of \<^verbatim>\<open>truth_value\<close>.
\<close>

theorem or_resolution_order:
  "truth_value (Or a b) = Inr (PBool (truthy (is_true a) \<or> truthy (is_true b)))
   \<and> fst (truth_value_traced (Or a b)) = truth_value (Or a b)
   \<and> snd (truth_value_traced (Or a b)) =
       (if truthy (is_true a) then snd (is_true_traced a)
        else snd (is_true_traced a) @ snd (is_true_traced b))
   \<and> fst (is_true_traced a) = is_true a
   \<and> fst (is_true_traced b) = is_true b
   \<and> (\<exists>t. snd (is_true_traced a) = a # t)
   \<and> (\<exists>t. snd (is_true_traced b) = b # t)"
proof -
  have r: "truth_value (Or a b) = Inr (PBool (truthy (is_true a) \<or> truthy (is_true b)))"
    by (rule truth_value_connectives)
  have v: "fst (truth_value_traced (Or a b)) = truth_value (Or a b)"
    by (rule traced_value)
  have xa: "fst (is_true_traced a) = is_true a" and xb: "fst (is_true_traced b) = is_true b"
    by (rule traced_value)+
  from xa have t: "snd (truth_value_traced (Or a b)) =
       (if truthy (is_true a) then snd (is_true_traced a)
        else snd (is_true_traced a) @ snd (is_true_traced b))"
    by (cases "is_true_traced a"; cases "is_true_traced b") (simp add: py_not_def)
  show ?thesis
    by (intro conjI) (rule r v t xa xb is_true_traced_head)+
qed

theorem or_resolution_order_witness:
  "truth_value_traced (Or (PBool False) (PBool True))
     = (Inr (PBool True), [PBool False, PBool True])
   \<and> truth_value_traced (Or (PBool True) (NotE (PBool True)))
     = (Inr (PBool True), [PBool True])
   \<and> truth_value_traced (Or (PBool False) (NotE (PBool True)))
     = (Inr (PBool False), [PBool False, NotE (PBool True), PBool True])
   \<and> truth_value (Or (PBool False) (NotE (PBool True))) = Inr (PBool False)"
  using or_resolution_order [of "PBool False" "PBool True"]
    or_resolution_order [of "PBool True" "NotE (PBool True)"]
    or_resolution_order [of "PBool False" "NotE (PBool True)"]
  by (simp add: py_not_def py_and_def)

section \<open>Properties of the rendering\<close>

lemma str_loop_join:
  "str_loop (i + int (length xs) - 1) i xs string
     = string @ comma_space_separated (map py_str xs)"
proof (induction xs arbitrary: i string)
  case Nil
  show ?case by simp
next
  case (Cons s rest)
  show ?case
  proof (cases rest)
    case Nil
    then show ?thesis by simp
  next
    case (Cons s' rest')
    have "str_loop (i + int (length (s # rest)) - 1) i (s # rest) string
            = str_loop (i + 1 + int (length rest) - 1) (i + 1) rest
                (string @ (py_str s @ '', ''))"
      using Cons by simp
    also have "\<dots> = (string @ (py_str s @ '', '')) @ comma_space_separated (map py_str rest)"
      by (rule Cons.IH)
    finally show ?thesis using Cons by simp
  qed
qed

lemma Expression_str_format:
  "Expression_str name scope
     = name @ ''('' @ comma_space_separated (map py_str scope) @ '')''"
  using str_loop_join [of 0 scope "name @ ''(''"] by (simp add: Let_def)

text \<open>
  Claim C8. The rendering of an expression is the name of its class, then, in
  parentheses, the renderings of its operands separated by a comma and a space; an
  operand that is an expression is rendered in the same way and a boolean as \<^verbatim>\<open>True\<close> or
  \<^verbatim>\<open>False\<close>. In particular \<^verbatim>\<open>str(And(True, False)) == "And(True, False)"\<close>.
\<close>

theorem str_format:
  "py_str (NotE a) = ''Not'' @ ''('' @ comma_space_separated [py_str a] @ '')''
   \<and> py_str (Or a b) = ''Or'' @ ''('' @ comma_space_separated [py_str a, py_str b] @ '')''
   \<and> py_str (And a b) = ''And'' @ ''('' @ comma_space_separated [py_str a, py_str b] @ '')''
   \<and> py_str (Conditional a b)
       = ''Conditional'' @ ''('' @ comma_space_separated [py_str a, py_str b] @ '')''
   \<and> py_str (BiConditional a b)
       = ''BiConditional'' @ ''('' @ comma_space_separated [py_str a, py_str b] @ '')''
   \<and> py_str (PBool True) = ''True'' \<and> py_str (PBool False) = ''False''
   \<and> py_str (And (PBool True) (PBool False)) = ''And(True, False)''"
  by (simp add: Expression_str_format del: Expression_str.simps)

theorem str_format_witness:
  "py_str (And (Or (PBool True) (PBool False)) (NotE (PBool False)))
     = ''And(Or(True, False), Not(False))''"
  using str_format [of "Or (PBool True) (PBool False)" "NotE (PBool False)"]
    str_format [of "PBool True" "PBool False"] str_format [of "PBool False"]
  by (simp del: py_str.simps)

section \<open>Properties of the store\<close>

lemma new_unary_eq:
  "new c [a] h =
     (if c = Not_cls then
        Some (HRef (length h),
           h @ [\<lparr>obj_class = c, obj_scope = Some [a], obj_a = Some a, obj_b = None\<rparr>])
      else None)"
  by (cases c) (simp_all add: new_def alloc_def seq_def ret_def UnaryExpression_init_def
       Expression_init_def setattr_scope_def setattr_a_def getattr_scope_def getitem_def
       raise_if_unset_def)

lemma new_binary_eq:
  "new c [a, b] h =
     (if c = Not_cls then None else
     Some (HRef (length h),
           h @ [\<lparr>obj_class = c, obj_scope = Some [a, b], obj_a = Some a, obj_b = Some b\<rparr>]))"
  by (cases c) (simp_all add: new_def alloc_def seq_def ret_def BinaryExpression_init_def
       Expression_init_def setattr_scope_def setattr_a_def setattr_b_def getattr_scope_def
       getitem_def raise_if_unset_def)

lemma those_map_cong:
  "those (map f xs) = Some ts \<Longrightarrow> (\<And>x t. x \<in> set xs \<Longrightarrow> f x = Some t \<Longrightarrow> g x = Some t)
   \<Longrightarrow> those (map g xs) = Some ts"
  by (induction xs arbitrary: ts) (auto split: option.splits)

lemma tree_of_Suc: "tree_of n h v = Some t \<Longrightarrow> tree_of (Suc n) h v = Some t"
proof (induction n arbitrary: v t)
  case 0
  then show ?case by (cases v) simp_all
next
  case (Suc n)
  show ?case
  proof (cases v)
    case (HRef r)
    with Suc.prems obtain scope ts where
      r: "r < length h" and sc: "obj_scope (h ! r) = Some scope"
      and c: "constructed (h ! r) scope"
      and ts: "those (map (tree_of n h) scope) = Some ts"
      and b: "build (obj_class (h ! r)) ts = Some t"
      by (auto split: if_splits option.splits)
    from ts have "those (map (tree_of (Suc n) h) scope) = Some ts"
      by (rule those_map_cong) (rule Suc.IH)
    with r sc c b HRef show ?thesis by simp
  qed (use Suc.prems in simp_all)
qed

lemma tree_of_add: "tree_of n h v = Some t \<Longrightarrow> tree_of (n + k) h v = Some t"
  by (induction k) (simp_all add: tree_of_Suc)

lemma tree_of_append: "tree_of n h v = Some t \<Longrightarrow> tree_of n (h @ ext) v = Some t"
proof (induction n arbitrary: v t)
  case 0
  then show ?case by (cases v) simp_all
next
  case (Suc n)
  show ?case
  proof (cases v)
    case (HRef r)
    with Suc.prems obtain scope ts where
      r: "r < length h" and sc: "obj_scope (h ! r) = Some scope"
      and c: "constructed (h ! r) scope"
      and ts: "those (map (tree_of n h) scope) = Some ts"
      and b: "build (obj_class (h ! r)) ts = Some t"
      by (auto split: if_splits option.splits)
    from ts have "those (map (tree_of n (h @ ext)) scope) = Some ts"
      by (rule those_map_cong) (rule Suc.IH)
    with r sc c b HRef show ?thesis by (simp add: nth_append)
  qed (use Suc.prems in simp_all)
qed



lemma those_map_two:
  "those (map f xs) = Some [x, y] \<Longrightarrow> \<exists>a b. xs = [a, b] \<and> f a = Some x \<and> f b = Some y"
  by (cases xs; cases "tl xs"; cases "tl (tl xs)") (auto split: option.splits)


lemma build_Some:
  "build c ts = Some t \<Longrightarrow>
     (\<exists>x. c = Not_cls \<and> ts = [x] \<and> t = NotE x)
   \<or> (\<exists>x y. ts = [x, y] \<and>
         (c = Or_cls \<and> t = Or x y \<or> c = And_cls \<and> t = And x y
          \<or> c = Conditional_cls \<and> t = Conditional x y
          \<or> c = BiConditional_cls \<and> t = BiConditional x y))"
  by (cases "(c, ts)" rule: build.cases) auto

lemma build_binary_inj:
  assumes "build c [ta, tb] = Some t" and "build c' ts = Some t"
  shows "c' = c \<and> ts = [ta, tb]"
  using build_Some [OF assms(1)] build_Some [OF assms(2)] by auto

lemma tree_of_leaf_not_expr:
  "tree_of n h (HBool b) = Some t \<Longrightarrow> \<not> isinstance_Expression t"
  "tree_of n h HNone = Some t \<Longrightarrow> \<not> isinstance_Expression t"
  "tree_of n h (HInt i) = Some t \<Longrightarrow> \<not> isinstance_Expression t"
  "tree_of n h (HStr s) = Some t \<Longrightarrow> \<not> isinstance_Expression t"
  by auto

lemma tree_of_Some_ref:
  assumes "tree_of n h v = Some t" and "isinstance_Expression t"
  shows "\<exists>m p scope ts. n = Suc m \<and> v = HRef p \<and> p < length h
          \<and> obj_scope (h ! p) = Some scope \<and> constructed (h ! p) scope
          \<and> those (map (tree_of m h) scope) = Some ts
          \<and> build (obj_class (h ! p)) ts = Some t"
proof (cases v)
  case (HRef p)
  show ?thesis
  proof (cases n)
    case 0
    with assms(1) HRef show ?thesis by simp
  next
    case (Suc m)
    with assms(1) HRef show ?thesis
      by (simp split: if_splits option.splits)
  qed
next
  case (HBool b) with assms tree_of_leaf_not_expr(1) show ?thesis by blast
next
  case HNone with assms tree_of_leaf_not_expr(2) show ?thesis by blast
next
  case (HInt i) with assms tree_of_leaf_not_expr(3) show ?thesis by blast
next
  case (HStr s) with assms tree_of_leaf_not_expr(4) show ?thesis by blast
qed


lemma tree_of_binary:
  assumes "tree_of n h self = Some t" and "build c [ta, tb] = Some t"
  shows "\<exists>m p va vb. n = Suc m \<and> self = HRef p \<and> p < length h
          \<and> h ! p = \<lparr>obj_class = c, obj_scope = Some [va, vb],
                      obj_a = Some va, obj_b = Some vb\<rparr>
          \<and> tree_of m h va = Some ta \<and> tree_of m h vb = Some tb"
proof -
  from build_Some [OF assms(2)] have "isinstance_Expression t" by auto
  from tree_of_Some_ref [OF assms(1) this] obtain m p scope ts where
      n: "n = Suc m" and self: "self = HRef p"
      and p: "p < length h" and sc: "obj_scope (h ! p) = Some scope"
      and c: "constructed (h ! p) scope"
      and ts: "those (map (tree_of m h) scope) = Some ts"
      and b: "build (obj_class (h ! p)) ts = Some t"
    by blast
  from build_binary_inj [OF assms(2) b] have cl: "obj_class (h ! p) = c" and "ts = [ta, tb]"
    by simp_all
  with ts have "those (map (tree_of m h) scope) = Some [ta, tb]" by simp
  from those_map_two [OF this] obtain va vb where scope: "scope = [va, vb]"
      and va: "tree_of m h va = Some ta" and vb: "tree_of m h vb = Some tb"
    by blast
  from c sc scope cl have "h ! p = \<lparr>obj_class = c, obj_scope = Some [va, vb],
                      obj_a = Some va, obj_b = Some vb\<rparr>"
    by (cases "h ! p") (simp add: constructed_def)
  with self n p va vb show ?thesis by blast
qed


lemma new_Not: "new Not_cls [a] h = Some (HRef (length h), h @ [unary_object Not_cls a])"
  by (simp add: new_unary_eq unary_object_def)

lemma new_binary:
  "c \<noteq> Not_cls \<Longrightarrow> new c [a, b] h = Some (HRef (length h), h @ [binary_object c a b])"
  by (simp add: new_binary_eq binary_object_def)

lemma tree_of_unary_object:
  assumes "r < length h" and "h ! r = unary_object Not_cls a" and "tree_of n h a = Some t"
  shows "tree_of (Suc n) h (HRef r) = Some (NotE t)"
  using assms by (simp add: unary_object_def constructed_def)

lemma tree_of_binary_object:
  assumes "r < length h" and "h ! r = binary_object c a b"
    and "tree_of n h a = Some ta" and "tree_of n h b = Some tb"
  shows "tree_of (Suc n) h (HRef r) = build c [ta, tb]"
  using assms by (simp add: binary_object_def constructed_def)

lemma receiver_fields:
  assumes "p < length h"
    and "h ! p = \<lparr>obj_class = c, obj_scope = Some [va, vb], obj_a = Some va, obj_b = Some vb\<rparr>"
  shows "method_of c (HRef p) h = Some ((), h)"
    and "getattr_a (HRef p) h = Some (va, h)"
    and "getattr_b (HRef p) h = Some (vb, h)"
  using assms by (simp_all add: method_of_def getattr_a_def getattr_b_def seq_def ret_def
      raise_if_unset_def)


lemma demorgans_law_or_h_run:
  assumes "p < length h"
    and "h ! p = \<lparr>obj_class = Or_cls, obj_scope = Some [va, vb],
                   obj_a = Some va, obj_b = Some vb\<rparr>"
  shows "demorgans_law_or_h (HRef p) h =
           Some (HRef (length h + 3),
                 h @ [unary_object Not_cls va, unary_object Not_cls vb,
                      binary_object And_cls (HRef (length h)) (HRef (length h + 1)),
                      unary_object Not_cls (HRef (length h + 2))])"
  using assms
  by (simp add: demorgans_law_or_h_def seq_def receiver_fields new_Not new_binary nth_append)


lemma demorgan_law_and_h_run:
  assumes "p < length h"
    and "h ! p = \<lparr>obj_class = And_cls, obj_scope = Some [va, vb],
                   obj_a = Some va, obj_b = Some vb\<rparr>"
  shows "demorgan_law_and_h (HRef p) h =
           Some (HRef (length h + 3),
                 h @ [unary_object Not_cls va, unary_object Not_cls vb,
                      binary_object Or_cls (HRef (length h)) (HRef (length h + 1)),
                      unary_object Not_cls (HRef (length h + 2))])"
  using assms
  by (simp add: demorgan_law_and_h_def seq_def receiver_fields new_Not new_binary nth_append)

lemma disjunction_convert_h_run:
  assumes "p < length h"
    and "h ! p = \<lparr>obj_class = Conditional_cls, obj_scope = Some [va, vb],
                   obj_a = Some va, obj_b = Some vb\<rparr>"
  shows "disjunction_convert_h (HRef p) h =
           Some (HRef (length h + 1),
                 h @ [unary_object Not_cls va, binary_object Or_cls (HRef (length h)) vb])"
  using assms
  by (simp add: disjunction_convert_h_def seq_def receiver_fields new_Not new_binary
        nth_append)

lemma conditional_convert_h_run:
  assumes "p < length h"
    and "h ! p = \<lparr>obj_class = BiConditional_cls, obj_scope = Some [va, vb],
                   obj_a = Some va, obj_b = Some vb\<rparr>"
  shows "conditional_convert_h (HRef p) h =
           Some (HRef (length h + 2),
                 h @ [binary_object Conditional_cls va vb, binary_object Conditional_cls vb va,
                      binary_object And_cls (HRef (length h)) (HRef (length h + 1))])"
  using assms
  by (simp add: conditional_convert_h_def seq_def receiver_fields new_Not new_binary
        nth_append)

lemma demorgans_law_or_h_tree:
  assumes "tree_of n h self = Some (Or ta tb)"
  shows "\<exists>r h'. demorgans_law_or_h self h = Some (r, h')
           \<and> tree_of (n + 2) h' r = Some (NotE (And (NotE ta) (NotE tb)))
           \<and> take (length h) h' = h
           \<and> tree_of n h' self = Some (Or ta tb)"
proof -
  have "build Or_cls [ta, tb] = Some (Or ta tb)" by simp
  from tree_of_binary [OF assms this]
  obtain m p va vb where n: "n = Suc m" and self: "self = HRef p" and p: "p < length h"
    and ob: "h ! p = \<lparr>obj_class = Or_cls, obj_scope = Some [va, vb],
                      obj_a = Some va, obj_b = Some vb\<rparr>"
    and va: "tree_of m h va = Some ta" and vb: "tree_of m h vb = Some tb"
    by blast
  define ext where "ext = [unary_object Not_cls va, unary_object Not_cls vb,
                      binary_object And_cls (HRef (length h)) (HRef (length h + 1)),
                      unary_object Not_cls (HRef (length h + 2))]"
  have run: "demorgans_law_or_h self h = Some (HRef (length h + 3), h @ ext)"
    unfolding self ext_def by (rule demorgans_law_or_h_run [OF p ob])
  have a: "tree_of m (h @ ext) va = Some ta" using va by (rule tree_of_append)
  have b: "tree_of m (h @ ext) vb = Some tb" using vb by (rule tree_of_append)
  have na: "tree_of (Suc m) (h @ ext) (HRef (length h)) = Some (NotE ta)"
    by (rule tree_of_unary_object [OF _ _ a]) (simp_all add: ext_def)
  have nb: "tree_of (Suc m) (h @ ext) (HRef (length h + 1)) = Some (NotE tb)"
    by (rule tree_of_unary_object [OF _ _ b]) (simp_all add: ext_def nth_append)
  have "tree_of (Suc (Suc m)) (h @ ext) (HRef (length h + 2))
             = build And_cls [NotE ta, NotE tb]"
    by (rule tree_of_binary_object [OF _ _ na nb]) (simp_all add: ext_def nth_append)
  then have c: "tree_of (Suc (Suc m)) (h @ ext) (HRef (length h + 2))
             = Some (And (NotE ta) (NotE tb))"
    by simp
  have r: "tree_of (Suc (Suc (Suc m))) (h @ ext) (HRef (length h + 3))
             = Some (NotE (And (NotE ta) (NotE tb)))"
    by (rule tree_of_unary_object [OF _ _ c]) (simp_all add: ext_def nth_append)
  have keep: "tree_of n (h @ ext) self = Some (Or ta tb)"
    using assms by (rule tree_of_append)
  from run r keep n show ?thesis by simp
qed


lemma demorgan_law_and_h_tree:
  assumes "tree_of n h self = Some (And ta tb)"
  shows "\<exists>r h'. demorgan_law_and_h self h = Some (r, h')
           \<and> tree_of (n + 2) h' r = Some (NotE (Or (NotE ta) (NotE tb)))
           \<and> take (length h) h' = h
           \<and> tree_of n h' self = Some (And ta tb)"
proof -
  have "build And_cls [ta, tb] = Some (And ta tb)" by simp
  from tree_of_binary [OF assms this]
  obtain m p va vb where n: "n = Suc m" and self: "self = HRef p" and p: "p < length h"
    and ob: "h ! p = \<lparr>obj_class = And_cls, obj_scope = Some [va, vb],
                      obj_a = Some va, obj_b = Some vb\<rparr>"
    and va: "tree_of m h va = Some ta" and vb: "tree_of m h vb = Some tb"
    by blast
  define ext where "ext = [unary_object Not_cls va, unary_object Not_cls vb,
                      binary_object Or_cls (HRef (length h)) (HRef (length h + 1)),
                      unary_object Not_cls (HRef (length h + 2))]"
  have run: "demorgan_law_and_h self h = Some (HRef (length h + 3), h @ ext)"
    unfolding self ext_def by (rule demorgan_law_and_h_run [OF p ob])
  have a: "tree_of m (h @ ext) va = Some ta" using va by (rule tree_of_append)
  have b: "tree_of m (h @ ext) vb = Some tb" using vb by (rule tree_of_append)
  have na: "tree_of (Suc m) (h @ ext) (HRef (length h)) = Some (NotE ta)"
    by (rule tree_of_unary_object [OF _ _ a]) (simp_all add: ext_def)
  have nb: "tree_of (Suc m) (h @ ext) (HRef (length h + 1)) = Some (NotE tb)"
    by (rule tree_of_unary_object [OF _ _ b]) (simp_all add: ext_def nth_append)
  have "tree_of (Suc (Suc m)) (h @ ext) (HRef (length h + 2))
             = build Or_cls [NotE ta, NotE tb]"
    by (rule tree_of_binary_object [OF _ _ na nb]) (simp_all add: ext_def nth_append)
  then have c: "tree_of (Suc (Suc m)) (h @ ext) (HRef (length h + 2))
             = Some (Or (NotE ta) (NotE tb))"
    by simp
  have r: "tree_of (Suc (Suc (Suc m))) (h @ ext) (HRef (length h + 3))
             = Some (NotE (Or (NotE ta) (NotE tb)))"
    by (rule tree_of_unary_object [OF _ _ c]) (simp_all add: ext_def nth_append)
  have keep: "tree_of n (h @ ext) self = Some (And ta tb)"
    using assms by (rule tree_of_append)
  from run r keep n show ?thesis by simp
qed

lemma disjunction_convert_h_tree:
  assumes "tree_of n h self = Some (Conditional ta tb)"
  shows "\<exists>r h'. disjunction_convert_h self h = Some (r, h')
           \<and> tree_of (n + 2) h' r = Some (Or (NotE ta) tb)
           \<and> take (length h) h' = h
           \<and> tree_of n h' self = Some (Conditional ta tb)"
proof -
  have "build Conditional_cls [ta, tb] = Some (Conditional ta tb)" by simp
  from tree_of_binary [OF assms this]
  obtain m p va vb where n: "n = Suc m" and self: "self = HRef p" and p: "p < length h"
    and ob: "h ! p = \<lparr>obj_class = Conditional_cls, obj_scope = Some [va, vb],
                      obj_a = Some va, obj_b = Some vb\<rparr>"
    and va: "tree_of m h va = Some ta" and vb: "tree_of m h vb = Some tb"
    by blast
  define ext where
    "ext = [unary_object Not_cls va, binary_object Or_cls (HRef (length h)) vb]"
  have run: "disjunction_convert_h self h = Some (HRef (length h + 1), h @ ext)"
    unfolding self ext_def by (rule disjunction_convert_h_run [OF p ob])
  have a: "tree_of m (h @ ext) va = Some ta" using va by (rule tree_of_append)
  have "tree_of m (h @ ext) vb = Some tb" using vb by (rule tree_of_append)
  then have b: "tree_of (Suc m) (h @ ext) vb = Some tb" by (rule tree_of_Suc)
  have na: "tree_of (Suc m) (h @ ext) (HRef (length h)) = Some (NotE ta)"
    by (rule tree_of_unary_object [OF _ _ a]) (simp_all add: ext_def)
  have "tree_of (Suc (Suc m)) (h @ ext) (HRef (length h + 1))
             = build Or_cls [NotE ta, tb]"
    by (rule tree_of_binary_object [OF _ _ na b]) (simp_all add: ext_def nth_append)
  then have "tree_of (Suc (Suc m)) (h @ ext) (HRef (length h + 1)) = Some (Or (NotE ta) tb)"
    by simp
  then have r: "tree_of (Suc (Suc (Suc m))) (h @ ext) (HRef (length h + 1))
                  = Some (Or (NotE ta) tb)"
    by (rule tree_of_Suc)
  have keep: "tree_of n (h @ ext) self = Some (Conditional ta tb)"
    using assms by (rule tree_of_append)
  from run r keep n show ?thesis by simp
qed

lemma conditional_convert_h_tree:
  assumes "tree_of n h self = Some (BiConditional ta tb)"
  shows "\<exists>r h'. conditional_convert_h self h = Some (r, h')
           \<and> tree_of (n + 2) h' r = Some (And (Conditional ta tb) (Conditional tb ta))
           \<and> take (length h) h' = h
           \<and> tree_of n h' self = Some (BiConditional ta tb)"
proof -
  have "build BiConditional_cls [ta, tb] = Some (BiConditional ta tb)" by simp
  from tree_of_binary [OF assms this]
  obtain m p va vb where n: "n = Suc m" and self: "self = HRef p" and p: "p < length h"
    and ob: "h ! p = \<lparr>obj_class = BiConditional_cls, obj_scope = Some [va, vb],
                      obj_a = Some va, obj_b = Some vb\<rparr>"
    and va: "tree_of m h va = Some ta" and vb: "tree_of m h vb = Some tb"
    by blast
  define ext where
    "ext = [binary_object Conditional_cls va vb, binary_object Conditional_cls vb va,
            binary_object And_cls (HRef (length h)) (HRef (length h + 1))]"
  have run: "conditional_convert_h self h = Some (HRef (length h + 2), h @ ext)"
    unfolding self ext_def by (rule conditional_convert_h_run [OF p ob])
  have a: "tree_of m (h @ ext) va = Some ta" using va by (rule tree_of_append)
  have b: "tree_of m (h @ ext) vb = Some tb" using vb by (rule tree_of_append)
  have "tree_of (Suc m) (h @ ext) (HRef (length h)) = build Conditional_cls [ta, tb]"
    by (rule tree_of_binary_object [OF _ _ a b]) (simp_all add: ext_def)
  then have c1: "tree_of (Suc m) (h @ ext) (HRef (length h)) = Some (Conditional ta tb)"
    by simp
  have "tree_of (Suc m) (h @ ext) (HRef (length h + 1)) = build Conditional_cls [tb, ta]"
    by (rule tree_of_binary_object [OF _ _ b a]) (simp_all add: ext_def nth_append)
  then have c2: "tree_of (Suc m) (h @ ext) (HRef (length h + 1)) = Some (Conditional tb ta)"
    by simp
  have "tree_of (Suc (Suc m)) (h @ ext) (HRef (length h + 2))
          = build And_cls [Conditional ta tb, Conditional tb ta]"
    by (rule tree_of_binary_object [OF _ _ c1 c2]) (simp_all add: ext_def nth_append)
  then have "tree_of (Suc (Suc m)) (h @ ext) (HRef (length h + 2))
          = Some (And (Conditional ta tb) (Conditional tb ta))"
    by simp
  then have r: "tree_of (Suc (Suc (Suc m))) (h @ ext) (HRef (length h + 2))
          = Some (And (Conditional ta tb) (Conditional tb ta))"
    by (rule tree_of_Suc)
  have keep: "tree_of n (h @ ext) self = Some (BiConditional ta tb)"
    using assms by (rule tree_of_append)
  from run r keep n show ?thesis by simp
qed

text \<open>
  Claim C7. Each rewrite returns exactly the new structure and leaves its receiver as it
  was: \<^verbatim>\<open>demorgans_law_or()\<close> returns \<^verbatim>\<open>Not(And(Not(a), Not(b)))\<close>, \<^verbatim>\<open>demorgan_law_and()\<close>
  returns \<^verbatim>\<open>Not(Or(Not(a), Not(b)))\<close>, \<^verbatim>\<open>disjunction_convert()\<close> returns \<^verbatim>\<open>Or(Not(a), b)\<close>
  and \<^verbatim>\<open>conditional_convert()\<close> returns \<^verbatim>\<open>And(Conditional(a,b), Conditional(b,a))\<close>. On
  values this is the first half of the statement. On the store, for a receiver that
  reads back as the connective over \<open>ta\<close> and \<open>tb\<close>, the call raises nothing, the object
  it returns reads back as the new structure, every object of the store before the call
  (the receiver with its scope and operands among them) is the same after it, and the
  receiver still reads back as before.
\<close>

theorem rewrites_return_new_structure:
  "demorgans_law_or (Or a b) = Inr (NotE (And (NotE a) (NotE b)))
   \<and> demorgan_law_and (And a b) = Inr (NotE (Or (NotE a) (NotE b)))
   \<and> disjunction_convert (Conditional a b) = Inr (Or (NotE a) b)
   \<and> conditional_convert (BiConditional a b) = Inr (And (Conditional a b) (Conditional b a))
   \<and> (tree_of n h self = Some (Or ta tb) \<longrightarrow>
        (\<exists>r h'. demorgans_law_or_h self h = Some (r, h')
           \<and> tree_of (n + 2) h' r = Some (NotE (And (NotE ta) (NotE tb)))
           \<and> take (length h) h' = h
           \<and> tree_of n h' self = Some (Or ta tb)))
   \<and> (tree_of n h self = Some (And ta tb) \<longrightarrow>
        (\<exists>r h'. demorgan_law_and_h self h = Some (r, h')
           \<and> tree_of (n + 2) h' r = Some (NotE (Or (NotE ta) (NotE tb)))
           \<and> take (length h) h' = h
           \<and> tree_of n h' self = Some (And ta tb)))
   \<and> (tree_of n h self = Some (Conditional ta tb) \<longrightarrow>
        (\<exists>r h'. disjunction_convert_h self h = Some (r, h')
           \<and> tree_of (n + 2) h' r = Some (Or (NotE ta) tb)
           \<and> take (length h) h' = h
           \<and> tree_of n h' self = Some (Conditional ta tb)))
   \<and> (tree_of n h self = Some (BiConditional ta tb) \<longrightarrow>
        (\<exists>r h'. conditional_convert_h self h = Some (r, h')
           \<and> tree_of (n + 2) h' r = Some (And (Conditional ta tb) (Conditional tb ta))
           \<and> take (length h) h' = h
           \<and> tree_of n h' self = Some (BiConditional ta tb)))"
  using demorgans_law_or_h_tree [of n h self ta tb]
    demorgan_law_and_h_tree [of n h self ta tb]
    disjunction_convert_h_tree [of n h self ta tb]
    conditional_convert_h_tree [of n h self ta tb]
  by simp

theorem rewrites_return_new_structure_witness:
  "tree_of (Suc 0) [binary_object Or_cls (HBool True) (HBool False)] (HRef 0)
     = Some (Or (PBool True) (PBool False))
   \<and> (\<exists>r h'. demorgans_law_or_h (HRef 0) [binary_object Or_cls (HBool True) (HBool False)]
                = Some (r, h')
         \<and> tree_of (Suc 0 + 2) h' r
             = Some (NotE (And (NotE (PBool True)) (NotE (PBool False))))
         \<and> take (length [binary_object Or_cls (HBool True) (HBool False)]) h'
             = [binary_object Or_cls (HBool True) (HBool False)]
         \<and> tree_of (Suc 0) h' (HRef 0) = Some (Or (PBool True) (PBool False)))
   \<and> tree_of (Suc 0) [binary_object And_cls (HBool True) (HBool False)] (HRef 0)
     = Some (And (PBool True) (PBool False))
   \<and> (\<exists>r h'. demorgan_law_and_h (HRef 0) [binary_object And_cls (HBool True) (HBool False)]
                = Some (r, h')
         \<and> tree_of (Suc 0 + 2) h' r
             = Some (NotE (Or (NotE (PBool True)) (NotE (PBool False))))
         \<and> take (length [binary_object And_cls (HBool True) (HBool False)]) h'
             = [binary_object And_cls (HBool True) (HBool False)]
         \<and> tree_of (Suc 0) h' (HRef 0) = Some (And (PBool True) (PBool False)))
   \<and> tree_of (Suc 0) [binary_object Conditional_cls (HBool True) (HBool False)] (HRef 0)
     = Some (Conditional (PBool True) (PBool False))
   \<and> (\<exists>r h'. disjunction_convert_h (HRef 0) [binary_object Conditional_cls (HBool True) (HBool False)]
                = Some (r, h')
         \<and> tree_of (Suc 0 + 2) h' r
             = Some (Or (NotE (PBool True)) (PBool False))
         \<and> take (length [binary_object Conditional_cls (HBool True) (HBool False)]) h'
             = [binary_object Conditional_cls (HBool True) (HBool False)]
         \<and> tree_of (Suc 0) h' (HRef 0) = Some (Conditional (PBool True) (PBool False)))
   \<and> tree_of (Suc 0) [binary_object BiConditional_cls (HBool True) (HBool False)] (HRef 0)
     = Some (BiConditional (PBool True) (PBool False))
   \<and> (\<exists>r h'. conditional_convert_h (HRef 0) [binary_object BiConditional_cls (HBool True) (HBool False)]
                = Some (r, h')
         \<and> tree_of (Suc 0 + 2) h' r
             = Some (And (Conditional (PBool True) (PBool False)) (Conditional (PBool False) (PBool True)))
         \<and> take (length [binary_object BiConditional_cls (HBool True) (HBool False)]) h'
             = [binary_object BiConditional_cls (HBool True) (HBool False)]
         \<and> tree_of (Suc 0) h' (HRef 0) = Some (BiConditional (PBool True) (PBool False)))"
proof -
  have t: "tree_of (Suc 0) [binary_object c (HBool True) (HBool False)] (HRef 0)
             = build c [PBool True, PBool False]" for c
    by (simp add: binary_object_def constructed_def)
  have h0: "tree_of (Suc 0) [binary_object Or_cls (HBool True) (HBool False)] (HRef 0)
     = Some (Or (PBool True) (PBool False))"
    by (subst t) simp
  have c0: "(\<exists>r h'. demorgans_law_or_h (HRef 0) [binary_object Or_cls (HBool True) (HBool False)]
                = Some (r, h')
         \<and> tree_of (Suc 0 + 2) h' r
             = Some (NotE (And (NotE (PBool True)) (NotE (PBool False))))
         \<and> take (length [binary_object Or_cls (HBool True) (HBool False)]) h'
             = [binary_object Or_cls (HBool True) (HBool False)]
         \<and> tree_of (Suc 0) h' (HRef 0) = Some (Or (PBool True) (PBool False)))"
    by (rule rewrites_return_new_structure
          [of "PBool True" "PBool False" "Suc 0" "[binary_object Or_cls (HBool True) (HBool False)]" "HRef 0" "PBool True" "PBool False",
           THEN conjunct2, THEN conjunct2, THEN conjunct2, THEN conjunct2, THEN conjunct1, THEN mp, OF h0])
  have h1: "tree_of (Suc 0) [binary_object And_cls (HBool True) (HBool False)] (HRef 0)
     = Some (And (PBool True) (PBool False))"
    by (subst t) simp
  have c1: "(\<exists>r h'. demorgan_law_and_h (HRef 0) [binary_object And_cls (HBool True) (HBool False)]
                = Some (r, h')
         \<and> tree_of (Suc 0 + 2) h' r
             = Some (NotE (Or (NotE (PBool True)) (NotE (PBool False))))
         \<and> take (length [binary_object And_cls (HBool True) (HBool False)]) h'
             = [binary_object And_cls (HBool True) (HBool False)]
         \<and> tree_of (Suc 0) h' (HRef 0) = Some (And (PBool True) (PBool False)))"
    by (rule rewrites_return_new_structure
          [of "PBool True" "PBool False" "Suc 0" "[binary_object And_cls (HBool True) (HBool False)]" "HRef 0" "PBool True" "PBool False",
           THEN conjunct2, THEN conjunct2, THEN conjunct2, THEN conjunct2, THEN conjunct2, THEN conjunct1, THEN mp, OF h1])
  have h2: "tree_of (Suc 0) [binary_object Conditional_cls (HBool True) (HBool False)] (HRef 0)
     = Some (Conditional (PBool True) (PBool False))"
    by (subst t) simp
  have c2: "(\<exists>r h'. disjunction_convert_h (HRef 0) [binary_object Conditional_cls (HBool True) (HBool False)]
                = Some (r, h')
         \<and> tree_of (Suc 0 + 2) h' r
             = Some (Or (NotE (PBool True)) (PBool False))
         \<and> take (length [binary_object Conditional_cls (HBool True) (HBool False)]) h'
             = [binary_object Conditional_cls (HBool True) (HBool False)]
         \<and> tree_of (Suc 0) h' (HRef 0) = Some (Conditional (PBool True) (PBool False)))"
    by (rule rewrites_return_new_structure
          [of "PBool True" "PBool False" "Suc 0" "[binary_object Conditional_cls (HBool True) (HBool False)]" "HRef 0" "PBool True" "PBool False",
           THEN conjunct2, THEN conjunct2, THEN conjunct2, THEN conjunct2, THEN conjunct2, THEN conjunct2, THEN conjunct1, THEN mp, OF h2])
  have h3: "tree_of (Suc 0) [binary_object BiConditional_cls (HBool True) (HBool False)] (HRef 0)
     = Some (BiConditional (PBool True) (PBool False))"
    by (subst t) simp
  have c3: "(\<exists>r h'. conditional_convert_h (HRef 0) [binary_object BiConditional_cls (HBool True) (HBool False)]
                = Some (r, h')
         \<and> tree_of (Suc 0 + 2) h' r
             = Some (And (Conditional (PBool True) (PBool False)) (Conditional (PBool False) (PBool True)))
         \<and> take (length [binary_object BiConditional_cls (HBool True) (HBool False)]) h'
             = [binary_object BiConditional_cls (HBool True) (HBool False)]
         \<and> tree_of (Suc 0) h' (HRef 0) = Some (BiConditional (PBool True) (PBool False)))"
    by (rule rewrites_return_new_structure
          [of "PBool True" "PBool False" "Suc 0" "[binary_object BiConditional_cls (HBool True) (HBool False)]" "HRef 0" "PBool True" "PBool False",
           THEN conjunct2, THEN conjunct2, THEN conjunct2, THEN conjunct2, THEN conjunct2, THEN conjunct2, THEN conjunct2, THEN mp, OF h3])
  show ?thesis
    by (intro conjI) (rule h0 c0 h1 c1 h2 c2 h3 c3)+
qed

end
